theory Spec2Isabelle
  imports Main "HOL-Library.Extended_Nat" "HOL-Library.Multiset" "HOL-Library.Sublist"
begin

section \<open>Python values\<close>

text \<open>
  A Python float is modelled by an exact rational or one of the three non-finite values.
  Arithmetic on finite floats is exact rational arithmetic: rounding error, overflow and
  the sign of zero are not modelled.  Strings are lists of 8-bit characters, read as the
  code points 0..255.
\<close>

datatype pyfloat = Flt rat | PosInf | NegInf | NaN

datatype pyval =
    PNone
  | PBool bool
  | PInt int
  | PFloat pyfloat
  | PStr string
  | PList "pyval list"
  | PDict "(string \<times> pyval) list"

text \<open>The exceptions the modelled code can raise; a \<open>KeyError\<close> carries the missing key,
  a \<open>ValueError\<close> its message.\<close>

datatype py_error = KeyError string | TypeError | ZeroDivisionError | ValueError string

subsection \<open>Float arithmetic\<close>

fun fneg :: "pyfloat \<Rightarrow> pyfloat" where
  "fneg (Flt a) = Flt (- a)"
| "fneg PosInf = NegInf"
| "fneg NegInf = PosInf"
| "fneg NaN = NaN"

fun fadd :: "pyfloat \<Rightarrow> pyfloat \<Rightarrow> pyfloat" where
  "fadd (Flt a) (Flt b) = Flt (a + b)"
| "fadd NaN _ = NaN"
| "fadd _ NaN = NaN"
| "fadd PosInf NegInf = NaN"
| "fadd NegInf PosInf = NaN"
| "fadd PosInf _ = PosInf"
| "fadd _ PosInf = PosInf"
| "fadd NegInf _ = NegInf"
| "fadd _ NegInf = NegInf"

definition fsub :: "pyfloat \<Rightarrow> pyfloat \<Rightarrow> pyfloat" where
  "fsub a b = fadd a (fneg b)"

fun fmul :: "pyfloat \<Rightarrow> pyfloat \<Rightarrow> pyfloat" where
  "fmul (Flt a) (Flt b) = Flt (a * b)"
| "fmul NaN _ = NaN"
| "fmul _ NaN = NaN"
| "fmul (Flt a) b = (if a = 0 then NaN else if 0 < a then b else fneg b)"
| "fmul a (Flt b) = (if b = 0 then NaN else if 0 < b then a else fneg a)"
| "fmul PosInf b = b"
| "fmul NegInf b = fneg b"

text \<open>Division by a divisor that is not zero: Python raises \<open>ZeroDivisionError\<close> before it
  divides by zero (see \<open>py_truediv\<close>), and \<open>numpy.linspace\<close> divides by \<open>num - 1 > 0\<close>.\<close>

fun fdiv :: "pyfloat \<Rightarrow> pyfloat \<Rightarrow> pyfloat" where
  "fdiv (Flt a) (Flt b) = Flt (a / b)"
| "fdiv NaN _ = NaN"
| "fdiv _ NaN = NaN"
| "fdiv (Flt a) _ = Flt 0"
| "fdiv a (Flt b) = (if 0 < b then a else fneg a)"
| "fdiv PosInf PosInf = NaN"
| "fdiv PosInf NegInf = NaN"
| "fdiv NegInf PosInf = NaN"
| "fdiv NegInf NegInf = NaN"

text \<open>Rounding to the nearest integer, ties to the even one.\<close>

definition round_half_even :: "rat \<Rightarrow> int" where
  "round_half_even x =
     (let f = \<lfloor>x\<rfloor>; d = x - of_int f
      in if d < 1 / 2 then f else if 1 / 2 < d then f + 1 else if even f then f else f + 1)"

text \<open>\<open>round(x, 3)\<close>: three decimals; a non-finite value is returned as it is.\<close>

fun py_round3 :: "pyfloat \<Rightarrow> pyfloat" where
  "py_round3 (Flt x) = Flt (of_int (round_half_even (x * 1000)) / 1000)"
| "py_round3 x = x"

subsection \<open>Numbers, subscripts, iteration\<close>

text \<open>The numeric value of an operand of \<open>/\<close>: a bool counts as the int 0 or 1, an int is
  converted to float; any other value makes the division raise \<open>TypeError\<close>.\<close>

fun as_float :: "pyval \<Rightarrow> pyfloat option" where
  "as_float (PBool b) = Some (Flt (if b then 1 else 0))"
| "as_float (PInt i) = Some (Flt (of_int i))"
| "as_float (PFloat x) = Some x"
| "as_float _ = None"

text \<open>True division \<open>a / b\<close> of Python.\<close>

definition py_truediv :: "pyval \<Rightarrow> pyval \<Rightarrow> py_error + pyfloat" where
  "py_truediv a b =
     (case (as_float a, as_float b) of
        (Some x, Some y) \<Rightarrow> if y = Flt 0 then Inl ZeroDivisionError else Inr (fdiv x y)
      | _ \<Rightarrow> Inl TypeError)"

text \<open>\<open>obj[key]\<close> with a string key: only a dict can be subscripted by a string.\<close>

fun py_getitem :: "pyval \<Rightarrow> string \<Rightarrow> py_error + pyval" where
  "py_getitem (PDict kvs) k = (case map_of kvs k of None \<Rightarrow> Inl (KeyError k) | Some v \<Rightarrow> Inr v)"
| "py_getitem _ k = Inl TypeError"

text \<open>The items \<open>list.extend(obj)\<close> appends: the elements of a list, the characters of a
  string, the keys of a dict; any other value is not iterable.\<close>

fun py_iter :: "pyval \<Rightarrow> py_error + pyval list" where
  "py_iter (PList xs) = Inr xs"
| "py_iter (PStr s) = Inr (map (\<lambda>c. PStr [c]) s)"
| "py_iter (PDict kvs) = Inr (map (\<lambda>kv. PStr (fst kv)) kvs)"
| "py_iter _ = Inl TypeError"

text \<open>\<open>numpy.linspace(start, stop, num, endpoint=True)\<close>: \<open>num\<close> values
  \<open>start + i * step\<close> with \<open>step = (stop - start) / (num - 1)\<close>, the last one set to
  \<open>stop\<close>; for \<open>num = 1\<close> the single value \<open>0 * (stop - start) + start\<close>, with no division.\<close>

definition np_linspace :: "pyfloat \<Rightarrow> pyfloat \<Rightarrow> nat \<Rightarrow> pyfloat list" where
  "np_linspace start stop num =
     (let dv = num - 1; delta = fsub stop start
      in if num = 0 then []
         else if dv = 0 then [fadd (fmul (Flt 0) delta) start]
         else map (\<lambda>i. fadd (fmul (Flt (of_nat i)) (fdiv delta (Flt (of_nat dv)))) start) [0..<dv]
              @ [stop])"

section \<open>The signal extractor\<close>

text \<open>What the function shows on the page: \<open>st.info\<close> with the time gap between two files,
  \<open>st.error\<close> for a record whose extraction raised, \<open>st.success\<close> at the end.\<close>

datatype event =
    Info_time_gap nat nat pyfloat
  | Error_failed string nat py_error
  | Success_finished string nat

text \<open>The three lists the loop appends to, and the messages shown so far.\<close>

record extract_state =
  fs_combine :: "pyval list"
  data_combine :: "pyval list"
  tstamp_combine :: "pyfloat list"
  events :: "event list"

text \<open>\<open>raw_data['rawData'][measure][field]\<close>\<close>

definition measure_field :: "pyval \<Rightarrow> string \<Rightarrow> string \<Rightarrow> py_error + pyval" where
  "measure_field raw_data meas field =
     (case py_getitem raw_data ''rawData'' of
        Inl e \<Rightarrow> Inl e
      | Inr r \<Rightarrow> (case py_getitem r meas of
                   Inl e \<Rightarrow> Inl e
                 | Inr block \<Rightarrow> py_getitem block field))"

text \<open>The body of the \<open>try\<close> for one record: the exception it stopped at (if any) and the
  state at that point.  The statements run in the order of the source, so what was
  appended before an exception stays appended.\<close>

definition try_segment :: "string \<Rightarrow> nat \<Rightarrow> pyval \<Rightarrow> extract_state \<Rightarrow> py_error option \<times> extract_state" where
  "try_segment meas file_idx raw_data s0 =
     (case measure_field raw_data meas ''samplingFrequency'' of
        Inl e \<Rightarrow> (Some e, s0)
      | Inr meas_sampfreq \<Rightarrow>
     let s1 = s0\<lparr>fs_combine := fs_combine s0 @ [meas_sampfreq]\<rparr> in
     (case measure_field raw_data meas ''values'' of
        Inl e \<Rightarrow> (Some e, s1)
      | Inr meas_data \<Rightarrow>
     (case py_iter meas_data of
        Inl e \<Rightarrow> (Some e, s1)
      | Inr items \<Rightarrow>
     let s2 = s1\<lparr>data_combine := data_combine s1 @ items\<rparr> in
     (case measure_field raw_data meas ''timestampStart'' of
        Inl e \<Rightarrow> (Some e, s2)
      | Inr meas_start_unix \<Rightarrow>
     (case py_truediv meas_start_unix (PFloat (Flt 1000000)) of
        Inl e \<Rightarrow> (Some e, s2)
      | Inr meas_start_unix_s \<Rightarrow>
     (case py_truediv (PInt (int (length items) - 1)) meas_sampfreq of
        Inl e \<Rightarrow> (Some e, s2)
      | Inr q \<Rightarrow>
     let meas_end_unix_s = fadd meas_start_unix_s q;
         s3 = (if tstamp_combine s2 \<noteq> []
               then s2\<lparr>events := events s2 @
                      [Info_time_gap file_idx (file_idx + 1)
                         (py_round3 (fsub meas_start_unix_s (last (tstamp_combine s2))))]\<rparr>
               else s2);
         meas_tstamps = np_linspace meas_start_unix_s meas_end_unix_s (length items)
     in (None, s3\<lparr>tstamp_combine := tstamp_combine s3 @ meas_tstamps\<rparr>)))))))"

text \<open>One iteration of the loop: the \<open>except\<close> clause reports the exception and goes on.\<close>

definition extract_iter :: "string \<Rightarrow> nat \<Rightarrow> pyval \<Rightarrow> extract_state \<Rightarrow> extract_state" where
  "extract_iter meas file_idx raw_data s =
     (case try_segment meas file_idx raw_data s of
        (None, s') \<Rightarrow> s'
      | (Some e, s') \<Rightarrow> s'\<lparr>events := events s' @ [Error_failed meas file_idx e]\<rparr>)"

text \<open>\<open>for file_idx, raw_data in enumerate(raw_datas)\<close>, from index \<open>file_idx\<close> on.\<close>

fun extract_loop :: "string \<Rightarrow> nat \<Rightarrow> pyval list \<Rightarrow> extract_state \<Rightarrow> extract_state" where
  "extract_loop meas file_idx [] s = s"
| "extract_loop meas file_idx (raw_data # rest) s =
     extract_loop meas (Suc file_idx) rest (extract_iter meas file_idx raw_data s)"

text \<open>The returned \<open>data_dict\<close>.\<close>

record data_dict =
  fs :: "pyval list"
  samples :: "pyval list"
  tstamps :: "pyfloat list"

definition init_state :: extract_state where
  "init_state = \<lparr>fs_combine = [], data_combine = [], tstamp_combine = [], events = []\<rparr>"

text \<open>The function: the messages it shows, in order, and the dict it returns.  The final
  message shows \<open>measure.upper()\<close>; the event keeps the measure itself.\<close>

definition extract_signal_streamlit :: "pyval list \<Rightarrow> string \<Rightarrow> event list \<times> data_dict" where
  "extract_signal_streamlit raw_datas meas =
     (let s = extract_loop meas 0 raw_datas init_state
      in (events s @ [Success_finished meas (length raw_datas)],
          \<lparr>fs = fs_combine s, samples = data_combine s, tstamps = tstamp_combine s\<rparr>))"

text \<open>A record as the container reader returns it, with one measure block.\<close>

definition segment_record :: "string \<Rightarrow> pyval \<Rightarrow> pyval list \<Rightarrow> pyval \<Rightarrow> pyval" where
  "segment_record meas sampfreq vals start =
     PDict [(''rawData'', PDict [(meas,
       PDict [(''samplingFrequency'', sampfreq), (''values'', PList vals), (''timestampStart'', start)])])]"

text \<open>A record passes extraction when the body of the \<open>try\<close> runs to its end; whether it
  does depends on the record and the measure only.\<close>

definition segment_passes :: "string \<Rightarrow> pyval \<Rightarrow> bool" where
  "segment_passes meas raw_data = (fst (try_segment meas 0 raw_data init_state) = None)"

section \<open>Segment ordering\<close>











section \<open>The serializer\<close>

text \<open>\<open>_nan_to_none\<close>: a non-finite float becomes \<open>None\<close>, lists and dicts are walked, every
  other value is returned as it is.\<close>

primrec nan_to_none :: "pyval \<Rightarrow> pyval" where
  "nan_to_none PNone = PNone"
| "nan_to_none (PBool b) = PBool b"
| "nan_to_none (PInt i) = PInt i"
| "nan_to_none (PFloat x) = (if x = NaN \<or> x = PosInf \<or> x = NegInf then PNone else PFloat x)"
| "nan_to_none (PStr s) = PStr s"
| "nan_to_none (PList xs) = PList (map nan_to_none xs)"
| "nan_to_none (PDict kvs) = PDict (map (map_prod id nan_to_none) kvs)"

text \<open>\<open>s.replace(old, new)\<close>: the occurrences of \<open>old\<close> from left to right, without overlap.
  (For an empty \<open>old\<close> the string is returned unchanged here; the source never passes
  one.)\<close>

function py_replace :: "string \<Rightarrow> string \<Rightarrow> string \<Rightarrow> string" where
  "py_replace old new [] = []"
| "py_replace old new (c # cs) =
     (if old \<noteq> [] \<and> prefix old (c # cs)
      then new @ py_replace old new (drop (length old) (c # cs))
      else c # py_replace old new cs)"
  by pat_completeness auto
termination
  by (relation "measure (\<lambda>(old, new, s). length s)") auto

text \<open>What \<open>CompactJSONEncoder.iterencode\<close> does to each chunk of the default encoder.\<close>

definition compact_chunk :: "string \<Rightarrow> string" where
  "compact_chunk s =
     py_replace (CHR 0x0A # ''  ]'') '']''
       (py_replace (CHR 0x0A # ''    '') '' ''
          (py_replace (CHR 0x0A # ''  ['' @ CHR 0x0A # ''    '') '' ['' s))"

text \<open>The library calls of \<open>serialize_data_dict\<close>, taken as parameters:
  \<open>pickle.dumps(obj, protocol=pickle.HIGHEST_PROTOCOL)\<close>; the chunks
  \<open>json.JSONEncoder.iterencode\<close> yields with \<open>indent=2\<close>, \<open>separators=(',', ': ')\<close> and
  \<open>ensure_ascii=False\<close>; \<open>str.encode("utf-8")\<close>; and
  \<open>pd.DataFrame({"tstamps": a, "samples": b}).to_csv(index=False)\<close>, which can raise.\<close>

record 'b py_lib =
  pickle_dumps :: "pyval \<Rightarrow> 'b"
  json_iterencode :: "pyval \<Rightarrow> string list"
  encode_utf8 :: "string \<Rightarrow> 'b"
  dataframe_to_csv :: "pyval \<Rightarrow> pyval \<Rightarrow> py_error + string"

definition CompactJSONEncoder_iterencode :: "'b py_lib \<Rightarrow> pyval \<Rightarrow> string list" where
  "CompactJSONEncoder_iterencode lib obj = map compact_chunk (json_iterencode lib obj)"

text \<open>\<open>str.lower\<close> and \<open>str.strip\<close> on the code points 0..255: the upper-case letters are
  A-Z and U+00C0..U+00DE without U+00D7, each 32 below its lower-case letter; the
  whitespace characters are U+0009..U+000D, U+001C..U+0020, U+0085 and U+00A0.\<close>

definition py_lower_char :: "char \<Rightarrow> char" where
  "py_lower_char c =
     (let n = (of_char c :: nat)
      in if (65 \<le> n \<and> n \<le> 90) \<or> (192 \<le> n \<and> n \<le> 222 \<and> n \<noteq> 215) then char_of (n + 32) else c)"

definition py_lower :: "string \<Rightarrow> string" where
  "py_lower s = map py_lower_char s"

definition py_isspace :: "char \<Rightarrow> bool" where
  "py_isspace c = ((of_char c :: nat) \<in> {9, 10, 11, 12, 13, 28, 29, 30, 31, 32, 133, 160})"

definition py_strip :: "string \<Rightarrow> string" where
  "py_strip s = rev (dropWhile py_isspace (rev (dropWhile py_isspace s)))"

text \<open>\<open>d.get(k, dflt)\<close>\<close>

definition dict_get :: "(string \<times> pyval) list \<Rightarrow> string \<Rightarrow> pyval \<Rightarrow> pyval" where
  "dict_get d k dflt = (case map_of d k of None \<Rightarrow> dflt | Some v \<Rightarrow> v)"

text \<open>\<open>serialize_data_dict(data_dict, fmt, base_name)\<close>: the returned triple, or the
  exception raised.  \<open>data_dict\<close> is a dict with string keys.\<close>

definition serialize_data_dict ::
  "'b py_lib \<Rightarrow> (string \<times> pyval) list \<Rightarrow> string \<Rightarrow> string \<Rightarrow> py_error + ('b \<times> string \<times> string)" where
  "serialize_data_dict lib data_dict fmt0 base_name =
     (let fmt = py_strip (py_lower fmt0)
      in if fmt = ''pickle''
         then Inr (pickle_dumps lib (PDict data_dict), base_name @ ''.pkl'', ''application/octet-stream'')
         else if fmt = ''json''
         then (let safe_obj = nan_to_none (PDict data_dict);
                   blob = encode_utf8 lib (concat (CompactJSONEncoder_iterencode lib safe_obj))
               in Inr (blob, base_name @ ''.json'', ''application/json''))
         else if fmt = ''csv''
         then (case dataframe_to_csv lib (dict_get data_dict ''tstamps'' (PList []))
                                         (dict_get data_dict ''samples'' (PList [])) of
                 Inl e \<Rightarrow> Inl e
               | Inr csv \<Rightarrow> Inr (encode_utf8 lib csv, base_name @ ''.csv'', ''text/csv''))
         else Inl (ValueError ''Unsupported format. Use 'pickle', 'json', or 'csv'.''))"

text \<open>No non-finite float anywhere in a value; and a string without its spaces and
  newlines.\<close>

fun all_finite :: "pyval \<Rightarrow> bool" where
  "all_finite (PFloat x) = (x \<noteq> NaN \<and> x \<noteq> PosInf \<and> x \<noteq> NegInf)"
| "all_finite (PList xs) = (\<forall>x \<in> set xs. all_finite x)"
| "all_finite (PDict kvs) = (\<forall>kv \<in> set kvs. all_finite (snd kv))"
| "all_finite _ = True"

definition non_ws :: "string \<Rightarrow> string" where
  "non_ws s = filter (\<lambda>c. c \<noteq> CHR '' '' \<and> c \<noteq> CHR 0x0A) s"

section \<open>Facts about the extractor\<close>

lemma try_segment_error_indep:
  "fst (try_segment m i raw s) = fst (try_segment m j raw s')"
  by (simp add: try_segment_def Let_def split: sum.splits)

text \<open>A record with the three fields, a numeric start and a numeric non-zero frequency
  runs through the body: what the body leaves behind.\<close>

lemma try_segment_ok:
  assumes "measure_field raw m ''samplingFrequency'' = Inr f"
    and "measure_field raw m ''values'' = Inr d"
    and "py_iter d = Inr items"
    and "measure_field raw m ''timestampStart'' = Inr t"
    and "as_float t = Some tq"
    and "as_float f = Some fq"
    and "fq \<noteq> Flt 0"
  shows "try_segment m i raw s =
    (None, s\<lparr>fs_combine := fs_combine s @ [f],
             data_combine := data_combine s @ items,
             events := events s @
               (if tstamp_combine s = [] then []
                else [Info_time_gap i (Suc i)
                        (py_round3 (fsub (fdiv tq (Flt 1000000)) (last (tstamp_combine s))))]),
             tstamp_combine := tstamp_combine s @
               np_linspace (fdiv tq (Flt 1000000))
                 (fadd (fdiv tq (Flt 1000000)) (fdiv (Flt (of_int (int (length items) - 1))) fq))
                 (length items)\<rparr>)"
  using assms by (simp add: try_segment_def py_truediv_def Let_def)

text \<open>Conversely, only such a record runs through.\<close>

lemma try_segment_None_D:
  assumes "fst (try_segment m i raw s) = None"
  shows "\<exists>f d items t tq fq. measure_field raw m ''samplingFrequency'' = Inr f
      \<and> measure_field raw m ''values'' = Inr d \<and> py_iter d = Inr items
      \<and> measure_field raw m ''timestampStart'' = Inr t
      \<and> as_float t = Some tq \<and> as_float f = Some fq \<and> fq \<noteq> Flt 0"
proof -
  obtain f where f: "measure_field raw m ''samplingFrequency'' = Inr f"
    using assms by (cases "measure_field raw m ''samplingFrequency''") (simp_all add: try_segment_def)
  obtain d where d: "measure_field raw m ''values'' = Inr d"
    using assms f by (cases "measure_field raw m ''values''") (simp_all add: try_segment_def)
  obtain items where it: "py_iter d = Inr items"
    using assms f d by (cases "py_iter d") (simp_all add: try_segment_def)
  obtain t where t: "measure_field raw m ''timestampStart'' = Inr t"
    using assms f d it by (cases "measure_field raw m ''timestampStart''") (simp_all add: try_segment_def)
  obtain st where st: "py_truediv t (PFloat (Flt 1000000)) = Inr st"
    using assms f d it t by (cases "py_truediv t (PFloat (Flt 1000000))") (simp_all add: try_segment_def)
  obtain q where q: "py_truediv (PInt (int (length items) - 1)) f = Inr q"
    using assms f d it t st
    by (cases "py_truediv (PInt (int (length items) - 1)) f") (simp_all add: try_segment_def)
  from st obtain tq where tq: "as_float t = Some tq"
    by (cases "as_float t") (simp_all add: py_truediv_def)
  from q obtain fq where fq: "as_float f = Some fq" "fq \<noteq> Flt 0"
    by (cases "as_float f") (auto simp add: py_truediv_def split: if_splits)
  from f d it t tq fq show ?thesis by blast
qed

lemma segment_passes_iff: "segment_passes m raw \<longleftrightarrow> fst (try_segment m i raw s) = None"
  unfolding segment_passes_def by (subst try_segment_error_indep[of m 0 raw init_state i s]) (rule refl)

lemma measure_field_segment_record:
  "measure_field (segment_record m f vs t) m ''samplingFrequency'' = Inr f"
  "measure_field (segment_record m f vs t) m ''values'' = Inr (PList vs)"
  "measure_field (segment_record m f vs t) m ''timestampStart'' = Inr t"
  by (simp_all add: measure_field_def segment_record_def)

subsection \<open>The timestamps of one segment\<close>

lemma np_linspace_0: "np_linspace a b 0 = []"
  by (simp add: np_linspace_def)


lemma np_linspace_SS:
  "np_linspace a b (Suc (Suc j)) =
     map (\<lambda>i. fadd (fmul (Flt (of_nat i)) (fdiv (fsub b a) (Flt (of_nat (Suc j))))) a) [0..<Suc j] @ [b]"
  unfolding np_linspace_def Let_def by (simp del: of_nat_Suc upt_Suc)

lemma length_np_linspace: "length (np_linspace a b n) = n"
  by (simp add: np_linspace_def Let_def)



lemma round_half_even_of_int: "round_half_even (of_int k) = k"
  by (simp add: round_half_even_def)

lemma round_half_even_numeral [simp]:
  "round_half_even (numeral n) = numeral n"
  "round_half_even (- numeral n) = - numeral n"
  "round_half_even 0 = 0"
  using round_half_even_of_int[of "numeral n"] round_half_even_of_int[of "- numeral n"]
    round_half_even_of_int[of 0]
  by simp_all

subsection \<open>The loop\<close>

lemma extract_iter_lookup_fails:
  assumes "measure_field raw m ''samplingFrequency'' = Inl e"
  shows "extract_iter m i raw s = s\<lparr>events := events s @ [Error_failed m i e]\<rparr>"
  using assms by (simp add: extract_iter_def try_segment_def)

lemma extract_iter_passes:
  assumes "segment_passes m raw"
  obtains f d items ts where
    "measure_field raw m ''samplingFrequency'' = Inr f"
    "measure_field raw m ''values'' = Inr d" "py_iter d = Inr items"
    "fs_combine (extract_iter m i raw s) = fs_combine s @ [f]"
    "data_combine (extract_iter m i raw s) = data_combine s @ items"
    "tstamp_combine (extract_iter m i raw s) = tstamp_combine s @ ts" "length ts = length items"
proof -
  from assms have "fst (try_segment m i raw s) = None"
    using segment_passes_iff[of m raw i s] by blast
  then obtain f d items t tq fq where h:
    "measure_field raw m ''samplingFrequency'' = Inr f"
    "measure_field raw m ''values'' = Inr d" "py_iter d = Inr items"
    "measure_field raw m ''timestampStart'' = Inr t"
    "as_float t = Some tq" "as_float f = Some fq" "fq \<noteq> Flt 0"
    using try_segment_None_D by blast
  define ts where "ts = np_linspace (fdiv tq (Flt 1000000))
                 (fadd (fdiv tq (Flt 1000000)) (fdiv (Flt (of_int (int (length items) - 1))) fq))
                 (length items)"
  have 1: "fs_combine (extract_iter m i raw s) = fs_combine s @ [f]"
    by (simp add: extract_iter_def try_segment_ok[OF h])
  have 2: "data_combine (extract_iter m i raw s) = data_combine s @ items"
    by (simp add: extract_iter_def try_segment_ok[OF h])
  have 3: "tstamp_combine (extract_iter m i raw s) = tstamp_combine s @ ts"
    by (simp add: extract_iter_def try_segment_ok[OF h] ts_def)
  have 4: "length ts = length items"
    by (simp add: ts_def length_np_linspace)
  from h(1,2,3) 1 2 3 4 show ?thesis by (rule that)
qed

text \<open>When every record either passes or fails at the first lookup, \<open>fs\<close> counts the records
  that passed, and \<open>samples\<close> and \<open>tstamps\<close> stay equally long.\<close>

lemma fs_length_loop:
  assumes "\<forall>raw \<in> set raws. segment_passes m raw \<or> (\<exists>e. measure_field raw m ''samplingFrequency'' = Inl e)"
  shows "length (fs_combine (extract_loop m i raws s))
         = length (fs_combine s) + length (filter (segment_passes m) raws)"
  using assms
proof (induction raws arbitrary: i s)
  case Nil
  then show ?case by simp
next
  case (Cons raw raws)
  have IH: "length (fs_combine (extract_loop m (Suc i) raws (extract_iter m i raw s)))
         = length (fs_combine (extract_iter m i raw s)) + length (filter (segment_passes m) raws)"
    using Cons.prems by (intro Cons.IH) simp
  show ?case
  proof (cases "segment_passes m raw")
    case True
    then obtain f where "fs_combine (extract_iter m i raw s) = fs_combine s @ [f]"
      by (rule extract_iter_passes)
    with IH True show ?thesis by simp
  next
    case False
    with Cons.prems obtain e where e: "measure_field raw m ''samplingFrequency'' = Inl e" by auto
    with IH False show ?thesis by (simp add: extract_iter_lookup_fails)
  qed
qed

lemma lengths_agree_loop:
  assumes "\<forall>raw \<in> set raws. segment_passes m raw \<or> (\<exists>e. measure_field raw m ''samplingFrequency'' = Inl e)"
    and "length (data_combine s) = length (tstamp_combine s)"
  shows "length (data_combine (extract_loop m i raws s)) = length (tstamp_combine (extract_loop m i raws s))"
  using assms
proof (induction raws arbitrary: i s)
  case Nil
  then show ?case by simp
next
  case (Cons raw raws)
  have "length (data_combine (extract_iter m i raw s)) = length (tstamp_combine (extract_iter m i raw s))"
  proof (cases "segment_passes m raw")
    case True
    then obtain items ts where "data_combine (extract_iter m i raw s) = data_combine s @ items"
      "tstamp_combine (extract_iter m i raw s) = tstamp_combine s @ ts" "length ts = length items"
      by (rule extract_iter_passes)
    then show ?thesis using Cons.prems(2) by simp
  next
    case False
    with Cons.prems obtain e where e: "measure_field raw m ''samplingFrequency'' = Inl e" by auto
    then show ?thesis using Cons.prems(2) by (simp add: extract_iter_lookup_fails)
  qed
  from Cons.IH[OF _ this] Cons.prems(1) show ?case by simp
qed

lemma lengths_agree_extract:
  assumes "\<forall>raw \<in> set raws. segment_passes m raw \<or> (\<exists>e. measure_field raw m ''samplingFrequency'' = Inl e)"
  shows "length (samples (snd (extract_signal_streamlit raws m)))
         = length (tstamps (snd (extract_signal_streamlit raws m)))"
  using lengths_agree_loop[OF assms, of init_state 0]
  by (simp add: extract_signal_streamlit_def Let_def init_state_def)

section \<open>Facts about the ordering key\<close>







section \<open>Facts about the serializer\<close>

lemma of_char_py_lower_char:
  "(of_char (py_lower_char c) :: nat) =
     (if (65 \<le> (of_char c :: nat) \<and> (of_char c :: nat) \<le> 90)
         \<or> (192 \<le> (of_char c :: nat) \<and> (of_char c :: nat) \<le> 222 \<and> (of_char c :: nat) \<noteq> 215)
      then of_char c + 32 else of_char c)"
  by (simp add: py_lower_char_def Let_def)

lemma py_isspace_lower [simp]: "py_isspace (py_lower_char c) = py_isspace c"
  unfolding py_isspace_def of_char_py_lower_char by auto

lemma py_lower_char_idem [simp]: "py_lower_char (py_lower_char c) = py_lower_char c"
proof -
  have "(of_char (py_lower_char (py_lower_char c)) :: nat) = of_char (py_lower_char c)"
    unfolding of_char_py_lower_char[of "py_lower_char c"] unfolding of_char_py_lower_char[of c]
    by auto
  then show ?thesis by (simp only: of_char_eq_iff)
qed








lemma char_of_eq: "n < 256 \<Longrightarrow> (char_of (n::nat) = c) = (n = of_char c)"
  by (metis of_char_of char_of_char mod_less)

text \<open>The sanitizer leaves no non-finite float anywhere and changes nothing in a value that
  has none; the replacements of \<open>CompactJSONEncoder\<close> change spaces and newlines only.\<close>

lemma nan_to_none_all_finite: "all_finite (nan_to_none x)"
  by (induction x) auto

lemma nan_to_none_id: "all_finite x \<Longrightarrow> nan_to_none x = x"
proof (induction x)
  case (PList xs)
  then show ?case by (simp add: map_idI)
next
  case (PDict kvs)
  have "map_prod id nan_to_none kv = kv" if "kv \<in> set kvs" for kv
  proof (cases kv)
    case (Pair k v)
    with that PDict.prems have "all_finite v" by auto
    with that Pair have "nan_to_none v = v" by (auto intro: PDict.IH)
    with Pair show ?thesis by simp
  qed
  then show ?case by (simp add: map_idI)
qed auto

lemma py_replace_non_ws:
  "non_ws old = non_ws new \<Longrightarrow> non_ws (py_replace old new s) = non_ws s"
proof (induction old new s rule: py_replace.induct)
  case (1 old new)
  then show ?case by simp
next
  case (2 old new c cs)
  show ?case
  proof (cases "old \<noteq> [] \<and> prefix old (c # cs)")
    case True
    then have "c # cs = old @ drop (length old) (c # cs)"
      by (metis append_eq_conv_conj prefix_def)
    then have "non_ws (c # cs) = non_ws old @ non_ws (drop (length old) (c # cs))"
      unfolding non_ws_def by (metis filter_append)
    moreover have "non_ws (py_replace old new (c # cs))
        = non_ws new @ non_ws (py_replace old new (drop (length old) (c # cs)))"
      using True unfolding non_ws_def by simp
    moreover have "non_ws (py_replace old new (drop (length old) (c # cs)))
        = non_ws (drop (length old) (c # cs))"
      using True "2.prems" by (intro "2.IH"(1)) simp_all
    ultimately show ?thesis using "2.prems" by simp
  next
    case False
    then have "non_ws (py_replace old new cs) = non_ws cs"
      using "2.prems" by (intro "2.IH"(2)) simp_all
    with False show ?thesis by (auto simp add: non_ws_def)
  qed
qed

lemma compact_chunk_non_ws: "non_ws (compact_chunk s) = non_ws s"
proof -
  have 1: "non_ws (CHR 0x0A # ''  ['' @ CHR 0x0A # ''    '') = non_ws '' [''"
    and 2: "non_ws (CHR 0x0A # ''    '') = non_ws '' ''"
    and 3: "non_ws (CHR 0x0A # ''  ]'') = non_ws '']''"
    by (simp_all add: non_ws_def)
  show ?thesis
    unfolding compact_chunk_def
    by (simp only: py_replace_non_ws[OF 1] py_replace_non_ws[OF 2] py_replace_non_ws[OF 3])
qed

section \<open>The claims\<close>

subsection \<open>C1: samples and timestamps of a failed record\<close>

text \<open>
  C1 says that the returned dict always has as many samples as timestamps, also when a
  record fails.  The code breaks it: a record with sampling frequency 0.0 and two values
  raises \<open>ZeroDivisionError\<close> after its frequency and its values were appended, so the
  returned dict has one frequency, two samples and no timestamp.
\<close>

theorem extract_zero_frequency_lengths_differ:
  "extract_signal_streamlit
     [segment_record ''eda'' (PFloat (Flt 0)) [PFloat (Flt 1), PFloat (Flt 2)] (PInt 0)] ''eda''
   = ([Error_failed ''eda'' 0 ZeroDivisionError, Success_finished ''eda'' 1],
      \<lparr>fs = [PFloat (Flt 0)], samples = [PFloat (Flt 1), PFloat (Flt 2)], tstamps = []\<rparr>)"
  by (simp add: extract_signal_streamlit_def extract_iter_def try_segment_def
      measure_field_segment_record py_truediv_def init_state_def)

subsection \<open>C2: what a failing record appends\<close>

text \<open>
  C2 as stated fails: a record with a negative sampling frequency does not fail
  extraction at all.  With frequency -4, two values and start 0 nothing is raised, and
  the frequency, both values and the timestamps 0 and -0.25 are appended.
\<close>

theorem negative_frequency_counterexample:
  "extract_signal_streamlit
     [segment_record ''eda'' (PFloat (Flt (- 4))) [PFloat (Flt 1), PFloat (Flt 2)] (PInt 0)] ''eda''
   = ([Success_finished ''eda'' 1],
      \<lparr>fs = [PFloat (Flt (- 4))], samples = [PFloat (Flt 1), PFloat (Flt 2)],
       tstamps = [Flt 0, Flt (- 1 / 4)]\<rparr>)"
  by (simp add: extract_signal_streamlit_def extract_iter_def try_segment_def
      measure_field_segment_record py_truediv_def init_state_def np_linspace_SS fsub_def
      numeral_2_eq_2)

text \<open>
  C2, amended.  A record whose lookup of \<open>rawData\<close>, of the measure or of
  \<open>samplingFrequency\<close> raises does not pass, and nothing is appended for it to \<open>fs\<close>,
  \<open>samples\<close> or \<open>tstamps\<close>: only the error is reported.  When every record of the input
  either passes or fails at that lookup, the length of the returned \<open>fs\<close> is the number of
  records that passed.  A record with a negative finite sampling frequency, a list of
  values and a numeric start passes, and its frequency, its values and as many
  timestamps are appended.
\<close>

theorem failed_lookup_appends_nothing:
  "(measure_field raw m ''samplingFrequency'' = Inl e \<longrightarrow>
      \<not> segment_passes m raw \<and>
      extract_iter m i raw s = s\<lparr>events := events s @ [Error_failed m i e]\<rparr>)
   \<and> ((\<forall>r \<in> set raws. segment_passes m r \<or> (\<exists>e. measure_field r m ''samplingFrequency'' = Inl e)) \<longrightarrow>
      length (fs (snd (extract_signal_streamlit raws m))) = length (filter (segment_passes m) raws))
   \<and> (measure_field raw' m ''samplingFrequency'' = Inr f \<and> as_float f = Some (Flt q) \<and> q < 0 \<and>
      measure_field raw' m ''values'' = Inr (PList vs) \<and>
      measure_field raw' m ''timestampStart'' = Inr t \<and> as_float t = Some tq \<longrightarrow>
      segment_passes m raw' \<and>
      fs_combine (extract_iter m i raw' s) = fs_combine s @ [f] \<and>
      data_combine (extract_iter m i raw' s) = data_combine s @ vs \<and>
      length (tstamp_combine (extract_iter m i raw' s)) = length (tstamp_combine s) + length vs)"
proof (intro conjI impI)
  assume e: "measure_field raw m ''samplingFrequency'' = Inl e"
  then show "extract_iter m i raw s = s\<lparr>events := events s @ [Error_failed m i e]\<rparr>"
    by (rule extract_iter_lookup_fails)
  from e show "\<not> segment_passes m raw"
    by (simp add: segment_passes_def try_segment_def)
next
  assume "\<forall>r \<in> set raws. segment_passes m r \<or> (\<exists>e. measure_field r m ''samplingFrequency'' = Inl e)"
  from fs_length_loop[OF this, of 0 init_state]
  show "length (fs (snd (extract_signal_streamlit raws m))) = length (filter (segment_passes m) raws)"
    by (simp add: extract_signal_streamlit_def Let_def init_state_def)
next
  assume a: "measure_field raw' m ''samplingFrequency'' = Inr f \<and> as_float f = Some (Flt q) \<and> q < 0 \<and>
      measure_field raw' m ''values'' = Inr (PList vs) \<and>
      measure_field raw' m ''timestampStart'' = Inr t \<and> as_float t = Some tq"
  have it: "py_iter (PList vs) = Inr vs" by simp
  from a have q: "Flt q \<noteq> Flt 0" by simp
  from a have h: "measure_field raw' m ''samplingFrequency'' = Inr f"
    "measure_field raw' m ''values'' = Inr (PList vs)"
    "measure_field raw' m ''timestampStart'' = Inr t" "as_float t = Some tq"
    "as_float f = Some (Flt q)" by simp_all
  note ok = try_segment_ok[OF h(1,2) it h(3,4,5) q]
  show "segment_passes m raw'"
    by (simp add: segment_passes_def ok)
  show "fs_combine (extract_iter m i raw' s) = fs_combine s @ [f]"
    by (simp add: extract_iter_def ok)
  show "data_combine (extract_iter m i raw' s) = data_combine s @ vs"
    by (simp add: extract_iter_def ok)
  show "length (tstamp_combine (extract_iter m i raw' s)) = length (tstamp_combine s) + length vs"
    by (simp add: extract_iter_def ok length_np_linspace)
qed

text \<open>Three records, the second without the measure: \<open>fs\<close> has length 2, and the second
  record leaves the state as it was but for the reported \<open>KeyError\<close>.\<close>

theorem failed_lookup_appends_nothing_witness:
  "length (fs (snd (extract_signal_streamlit
       [segment_record ''eda'' (PInt 4) [PFloat (Flt 1)] (PInt 0),
        segment_record ''bvp'' (PInt 64) [PFloat (Flt 2)] (PInt 1000000),
        segment_record ''eda'' (PInt 4) [PFloat (Flt 3)] (PInt 2000000)] ''eda''))) = 2
   \<and> extract_iter ''eda'' 1 (segment_record ''bvp'' (PInt 64) [PFloat (Flt 2)] (PInt 1000000)) init_state
       = init_state\<lparr>events := [Error_failed ''eda'' 1 (KeyError ''eda'')]\<rparr>"
proof -
  let ?a = "segment_record ''eda'' (PInt 4) [PFloat (Flt 1)] (PInt 0)"
  let ?b = "segment_record ''bvp'' (PInt 64) [PFloat (Flt 2)] (PInt 1000000)"
  let ?c = "segment_record ''eda'' (PInt 4) [PFloat (Flt 3)] (PInt 2000000)"
  have b: "measure_field ?b ''eda'' ''samplingFrequency'' = Inl (KeyError ''eda'')"
    by (simp add: measure_field_def segment_record_def)
  have pa: "segment_passes ''eda'' ?a" and pc: "segment_passes ''eda'' ?c"
    by (simp_all add: segment_passes_def try_segment_def measure_field_segment_record py_truediv_def
        Let_def)
  have nb: "\<not> segment_passes ''eda'' ?b"
    using b by (simp add: segment_passes_def try_segment_def)
  have all: "\<forall>r \<in> set [?a, ?b, ?c]. segment_passes ''eda'' r
      \<or> (\<exists>e. measure_field r ''eda'' ''samplingFrequency'' = Inl e)"
    using pa pc b by simp
  show ?thesis
    using failed_lookup_appends_nothing[of ?b "''eda''" "KeyError ''eda''" 1 init_state "[?a, ?b, ?c]"]
      b all pa pc nb
    by (simp add: init_state_def)
qed

subsection \<open>C3: the reported time gap\<close>




subsection \<open>C4: the two example gaps\<close>



subsection \<open>C5: the timestamps of a segment\<close>



subsection \<open>C9: a segment without values\<close>

text \<open>
  C9.  A record whose values are the empty list, with a numeric non-zero sampling
  frequency and a numeric start, passes extraction: its sampling frequency is appended to
  \<open>fs\<close>, and \<open>samples\<close> and \<open>tstamps\<close> stay as they were.
\<close>

theorem empty_segment_appends_only_fs:
  assumes "measure_field raw m ''samplingFrequency'' = Inr f"
    and "as_float f = Some fq" and "fq \<noteq> Flt 0"
    and "measure_field raw m ''values'' = Inr (PList [])"
    and "measure_field raw m ''timestampStart'' = Inr t" and "as_float t = Some tq"
  shows "fst (try_segment m i raw s) = None \<and>
         fs_combine (extract_iter m i raw s) = fs_combine s @ [f] \<and>
         data_combine (extract_iter m i raw s) = data_combine s \<and>
         tstamp_combine (extract_iter m i raw s) = tstamp_combine s"
proof -
  have it: "py_iter (PList []) = Inr []" by simp
  note ok = try_segment_ok[OF assms(1,4) it assms(5,6,2,3), of i s]
  show ?thesis by (simp add: extract_iter_def ok np_linspace_0)
qed

theorem empty_segment_appends_only_fs_witness:
  "extract_signal_streamlit [segment_record ''bvp'' (PFloat (Flt 64)) [] (PInt 1700000000000000)] ''bvp''
     = ([Success_finished ''bvp'' 1], \<lparr>fs = [PFloat (Flt 64)], samples = [], tstamps = []\<rparr>)"
proof -
  let ?r = "segment_record ''bvp'' (PFloat (Flt 64)) [] (PInt 1700000000000000)"
  have "fst (try_segment ''bvp'' 0 ?r init_state) = None \<and>
        fs_combine (extract_iter ''bvp'' 0 ?r init_state) = fs_combine init_state @ [PFloat (Flt 64)] \<and>
        data_combine (extract_iter ''bvp'' 0 ?r init_state) = data_combine init_state \<and>
        tstamp_combine (extract_iter ''bvp'' 0 ?r init_state) = tstamp_combine init_state"
    by (rule empty_segment_appends_only_fs[OF measure_field_segment_record(1) _ _
          measure_field_segment_record(2) measure_field_segment_record(3),
          where fq = "Flt 64" and tq = "Flt 1700000000000000"]) simp_all
  moreover have "events (extract_iter ''bvp'' 0 ?r init_state) = []"
    by (simp add: extract_iter_def try_segment_def measure_field_segment_record py_truediv_def
        init_state_def np_linspace_0)
  ultimately show ?thesis
    by (simp add: extract_signal_streamlit_def init_state_def)
qed

subsection \<open>C6: the ordering key and the sort\<close>




subsection \<open>C8: a format that is not supported\<close>

text \<open>
  C8 as stated fails twice.  The format \<open>PICKLE\<close> is none of the three strings \<open>pickle\<close>,
  \<open>json\<close>, \<open>csv\<close>, yet it is accepted; and for \<open>xml\<close> the exception is a \<open>ValueError\<close>
  whose message is fixed and does not name \<open>xml\<close>.
\<close>

theorem unsupported_format_counterexample:
  "(\<forall>lib :: string py_lib.
      serialize_data_dict lib [] ''PICKLE'' ''x''
        = Inr (pickle_dumps lib (PDict []), ''x.pkl'', ''application/octet-stream''))
   \<and> ''PICKLE'' \<notin> {''pickle'', ''json'', ''csv''}
   \<and> (\<forall>lib :: string py_lib.
      serialize_data_dict lib [] ''xml'' ''x''
        = Inl (ValueError ''Unsupported format. Use 'pickle', 'json', or 'csv'.''))
   \<and> \<not> sublist ''xml'' ''Unsupported format. Use 'pickle', 'json', or 'csv'.''"
proof (intro conjI allI)
  fix lib :: "string py_lib"
  show "serialize_data_dict lib [] ''PICKLE'' ''x''
        = Inr (pickle_dumps lib (PDict []), ''x.pkl'', ''application/octet-stream'')"
    by (simp add: serialize_data_dict_def py_strip_def py_lower_def py_lower_char_def
        py_isspace_def char_of_eq)
  show "serialize_data_dict lib [] ''xml'' ''x''
        = Inl (ValueError ''Unsupported format. Use 'pickle', 'json', or 'csv'.'')"
    by (simp add: serialize_data_dict_def py_strip_def py_lower_def py_lower_char_def
        py_isspace_def char_of_eq)
next
  show "''PICKLE'' \<notin> {''pickle'', ''json'', ''csv''}" by simp
next
  show "\<not> sublist ''xml'' ''Unsupported format. Use 'pickle', 'json', or 'csv'.''"
    by (simp add: sublist_Cons_right)
qed

text \<open>
  C8, amended.  For every format string whose lower-cased and stripped form is none of
  \<open>pickle\<close>, \<open>json\<close>, \<open>csv\<close>, every dict and every base name, \<open>serialize_data_dict\<close> raises
  \<open>ValueError\<close> with the fixed message \<open>Unsupported format. Use 'pickle', 'json', or
  'csv'.\<close> and returns no bytes, file name or mime type.
\<close>

theorem serialize_unsupported_format:
  assumes "py_strip (py_lower fmt) \<notin> {''pickle'', ''json'', ''csv''}"
  shows "serialize_data_dict lib data_dict fmt base_name
           = Inl (ValueError ''Unsupported format. Use 'pickle', 'json', or 'csv'.'')"
  using assms by (simp add: serialize_data_dict_def)

theorem serialize_unsupported_format_witness:
  "\<forall>(lib :: string py_lib) data_dict.
      serialize_data_dict lib data_dict ''xml'' ''x''
        = Inl (ValueError ''Unsupported format. Use 'pickle', 'json', or 'csv'.'')"
proof (intro allI)
  fix lib :: "string py_lib" and data_dict
  have "py_strip (py_lower ''xml'') = ''xml''"
    by (simp add: py_strip_def py_lower_def py_lower_char_def py_isspace_def)
  then have "py_strip (py_lower ''xml'') \<notin> {''pickle'', ''json'', ''csv''}" by simp
  then show "serialize_data_dict lib data_dict ''xml'' ''x''
        = Inl (ValueError ''Unsupported format. Use 'pickle', 'json', or 'csv'.'')"
    by (rule serialize_unsupported_format)
qed

subsection \<open>C10: the format is normalised\<close>



end
